theory Spec2Isabelle
  imports Main "HOL-Library.Word"
begin

section \<open>Memory model\<close>

text \<open>
  The library of \<^verbatim>\<open>smartpointers.h\<close> is three handle classes over raw pointers
  and one heap-allocated pair of counters. A pointer is an optional address
  (\<open>None\<close> is \<^verbatim>\<open>nullptr\<close>), \<^verbatim>\<open>size_t\<close> is a 64-bit word, and everything the
  C++ leaves undefined (a null or dangling dereference, a second \<^verbatim>\<open>delete\<close>, the use
  of a handle outside its lifetime) is an error value of the model.
\<close>

type_synonym addr = nat
type_synonym ptr = "addr option"
type_synonym size_t = "64 word"

datatype error = NullDeref | UseAfterFree | DoubleFree | DeadHandle

record ReferenceCounter =
  count :: size_t
  weak :: size_t

record UniquePtr =
  object_u :: ptr

record SharedPtr =
  object :: ptr
  reference :: ptr

record WeakPtr =
  pointer :: ptr
  reference_w :: ptr

text \<open>
  The state of a program that uses the library: the heap of count blocks (the address
  of a block is its index, a deleted block is \<open>None\<close>, addresses are not reused), the
  log of every \<^verbatim>\<open>delete object\<close> in the order of execution, and the handle variables
  of each class (a variable is named by its index, \<open>None\<close> after its destructor ran).
\<close>

record state =
  blocks :: "ReferenceCounter option list"
  deleted :: "addr list"
  uniques :: "UniquePtr option list"
  shareds :: "SharedPtr option list"
  weaks :: "WeakPtr option list"

definition empty_state :: state where
  "empty_state = \<lparr>blocks = [], deleted = [], uniques = [], shareds = [], weaks = []\<rparr>"

definition lookup :: "'a option list \<Rightarrow> nat \<Rightarrow> 'a option" where
  "lookup xs i = (if i < length xs then xs ! i else None)"

text \<open>\<^verbatim>\<open>delete object\<close> on a non-null pointer; deleting twice is undefined.\<close>

definition delete_object :: "addr \<Rightarrow> state \<Rightarrow> error + state" where
  "delete_object p s =
     (if p \<in> set (deleted s) then Inl DoubleFree
      else Inr (s\<lparr>deleted := deleted s @ [p]\<rparr>))"

text \<open>\<^verbatim>\<open>delete reference\<close> on a non-null block pointer.\<close>

definition delete_reference :: "addr \<Rightarrow> state \<Rightarrow> error + state" where
  "delete_reference r s =
     (case lookup (blocks s) r of
        None \<Rightarrow> Inl DoubleFree
      | Some rc \<Rightarrow> Inr (s\<lparr>blocks := (blocks s)[r := None]\<rparr>))"

text \<open>\<^verbatim>\<open>new ReferenceCounter{}\<close>: both counters start at 0.\<close>

definition new_reference :: "state \<Rightarrow> addr \<times> state" where
  "new_reference s =
     (length (blocks s), s\<lparr>blocks := blocks s @ [Some \<lparr>count = 0, weak = 0\<rparr>]\<rparr>)"

text \<open>Writing a block back through a block pointer.\<close>

definition store :: "addr \<Rightarrow> ReferenceCounter \<Rightarrow> state \<Rightarrow> state" where
  "store r rc s = s\<lparr>blocks := (blocks s)[r := Some rc]\<rparr>"

section \<open>ReferenceCounter\<close>

definition add :: "ReferenceCounter \<Rightarrow> ReferenceCounter" where
  "add rc = rc\<lparr>count := count rc + 1\<rparr>"

text \<open>\<^verbatim>\<open>return --count\<close>: the value after the decrement, which wraps at 0.\<close>

definition remove :: "ReferenceCounter \<Rightarrow> size_t \<times> ReferenceCounter" where
  "remove rc = (count rc - 1, rc\<lparr>count := count rc - 1\<rparr>)"

definition get :: "ReferenceCounter \<Rightarrow> size_t" where
  "get rc = count rc"

definition addWeak :: "ReferenceCounter \<Rightarrow> ReferenceCounter" where
  "addWeak rc = rc\<lparr>weak := weak rc + 1\<rparr>"

definition removeWeak :: "ReferenceCounter \<Rightarrow> size_t \<times> ReferenceCounter" where
  "removeWeak rc = (weak rc - 1, rc\<lparr>weak := weak rc - 1\<rparr>)"

definition getWeak :: "ReferenceCounter \<Rightarrow> size_t" where
  "getWeak rc = weak rc"

text \<open>\<^verbatim>\<open>reference->add()\<close> and \<^verbatim>\<open>reference->addWeak()\<close> through a block pointer.\<close>

definition reference_add :: "ptr \<Rightarrow> state \<Rightarrow> error + state" where
  "reference_add p s =
     (case p of
        None \<Rightarrow> Inl NullDeref
      | Some r \<Rightarrow> (case lookup (blocks s) r of
                     None \<Rightarrow> Inl UseAfterFree
                   | Some rc \<Rightarrow> Inr (store r (add rc) s)))"

definition reference_addWeak :: "ptr \<Rightarrow> state \<Rightarrow> error + state" where
  "reference_addWeak p s =
     (case p of
        None \<Rightarrow> Inl NullDeref
      | Some r \<Rightarrow> (case lookup (blocks s) r of
                     None \<Rightarrow> Inl UseAfterFree
                   | Some rc \<Rightarrow> Inr (store r (addWeak rc) s)))"

section \<open>UniquePtr\<close>

definition UniquePtr_ctor :: "state \<Rightarrow> error + state" where
  "UniquePtr_ctor s = Inr (s\<lparr>uniques := uniques s @ [Some \<lparr>object_u = None\<rparr>]\<rparr>)"

definition UniquePtr_ctor_ptr :: "ptr \<Rightarrow> state \<Rightarrow> error + state" where
  "UniquePtr_ctor_ptr right s = Inr (s\<lparr>uniques := uniques s @ [Some \<lparr>object_u = right\<rparr>]\<rparr>)"

text \<open>
  \<^verbatim>\<open>UniquePtr(UniquePtr<T> &&right)\<close>: the new handle is the next variable; the source
  is \<open>right\<close>.
\<close>

definition UniquePtr_move_ctor :: "nat \<Rightarrow> state \<Rightarrow> error + state" where
  "UniquePtr_move_ctor right s =
     (case lookup (uniques s) right of
        None \<Rightarrow> Inl DeadHandle
      | Some r \<Rightarrow>
          Inr (s\<lparr>uniques := (uniques s @ [Some \<lparr>object_u = object_u r\<rparr>])
                               [right := Some \<lparr>object_u = None\<rparr>]\<rparr>))"

text \<open>
  \<^verbatim>\<open>operator=(UniquePtr<T> &&right)\<close>. The three statements run in the source's order
  on the state, so that \<open>this = right\<close> reads and writes the same variable.
\<close>

definition UniquePtr_move_assign :: "nat \<Rightarrow> nat \<Rightarrow> state \<Rightarrow> error + state" where
  "UniquePtr_move_assign this right s =
     (case lookup (uniques s) this of
        None \<Rightarrow> Inl DeadHandle
      | Some t \<Rightarrow>
          (case lookup (uniques s) right of
             None \<Rightarrow> Inl DeadHandle
           | Some r0 \<Rightarrow>
               (case (case object_u t of
                        None \<Rightarrow> Inr s
                      | Some p \<Rightarrow> delete_object p s) of
                  Inl e \<Rightarrow> Inl e
                | Inr s1 \<Rightarrow>
                    (let s2 = s1\<lparr>uniques := (uniques s1)[this := lookup (uniques s1) right]\<rparr>
                     in Inr (s2\<lparr>uniques := (uniques s2)[right := Some \<lparr>object_u = None\<rparr>]\<rparr>)))))"

text \<open>\<^verbatim>\<open>~UniquePtr\<close>: \<^verbatim>\<open>delete object\<close>, which does nothing on a null pointer.\<close>

definition UniquePtr_dtor :: "nat \<Rightarrow> state \<Rightarrow> error + state" where
  "UniquePtr_dtor this s =
     (case lookup (uniques s) this of
        None \<Rightarrow> Inl DeadHandle
      | Some t \<Rightarrow>
          (case (case object_u t of
                   None \<Rightarrow> Inr s
                 | Some p \<Rightarrow> delete_object p s) of
             Inl e \<Rightarrow> Inl e
           | Inr s1 \<Rightarrow> Inr (s1\<lparr>uniques := (uniques s1)[this := None]\<rparr>)))"

definition UniquePtr_get :: "nat \<Rightarrow> state \<Rightarrow> error + ptr" where
  "UniquePtr_get this s =
     (case lookup (uniques s) this of
        None \<Rightarrow> Inl DeadHandle
      | Some t \<Rightarrow> Inr (object_u t))"

definition UniquePtr_release :: "nat \<Rightarrow> state \<Rightarrow> error + ptr \<times> state" where
  "UniquePtr_release this s =
     (case lookup (uniques s) this of
        None \<Rightarrow> Inl DeadHandle
      | Some t \<Rightarrow>
          Inr (object_u t, s\<lparr>uniques := (uniques s)[this := Some \<lparr>object_u = None\<rparr>]\<rparr>))"

definition UniquePtr_reset :: "nat \<Rightarrow> ptr \<Rightarrow> state \<Rightarrow> error + state" where
  "UniquePtr_reset this p s =
     (case lookup (uniques s) this of
        None \<Rightarrow> Inl DeadHandle
      | Some t \<Rightarrow>
          (case (case object_u t of
                   None \<Rightarrow> Inr s
                 | Some q \<Rightarrow> delete_object q s) of
             Inl e \<Rightarrow> Inl e
           | Inr s1 \<Rightarrow> Inr (s1\<lparr>uniques := (uniques s1)[this := Some \<lparr>object_u = p\<rparr>]\<rparr>)))"

definition UniquePtr_swap :: "nat \<Rightarrow> nat \<Rightarrow> state \<Rightarrow> error + state" where
  "UniquePtr_swap this other s =
     (case lookup (uniques s) this of
        None \<Rightarrow> Inl DeadHandle
      | Some t \<Rightarrow>
          (case lookup (uniques s) other of
             None \<Rightarrow> Inl DeadHandle
           | Some ot \<Rightarrow>
               Inr (s\<lparr>uniques := (uniques s)[other := Some t, this := Some ot]\<rparr>)))"

section \<open>SharedPtr\<close>

text \<open>
  \<^verbatim>\<open>deleter\<close> reads the fields of the handle and changes only the heap. The
  conjunction is evaluated left to right: the block is touched only if \<open>object\<close> is
  not null.
\<close>

definition SharedPtr_deleter :: "SharedPtr \<Rightarrow> state \<Rightarrow> error + state" where
  "SharedPtr_deleter h s =
     (case object h of
        None \<Rightarrow> Inr s
      | Some obj \<Rightarrow>
          (case reference h of
             None \<Rightarrow> Inl NullDeref
           | Some r \<Rightarrow>
               (case lookup (blocks s) r of
                  None \<Rightarrow> Inl UseAfterFree
                | Some rc \<Rightarrow>
                    (let (n, rc') = remove rc; s1 = store r rc' s
                     in if n \<noteq> 0 then Inr s1
                        else (case delete_object obj s1 of
                                Inl e \<Rightarrow> Inl e
                              | Inr s2 \<Rightarrow>
                                  if getWeak rc' \<noteq> 0 then Inr s2
                                  else delete_reference r s2)))))"

definition SharedPtr_ctor :: "state \<Rightarrow> error + state" where
  "SharedPtr_ctor s =
     Inr (s\<lparr>shareds := shareds s @ [Some \<lparr>object = None, reference = None\<rparr>]\<rparr>)"

text \<open>\<^verbatim>\<open>SharedPtr(T *pointer)\<close>: a block is allocated whatever the pointer is.\<close>

definition SharedPtr_ctor_ptr :: "ptr \<Rightarrow> state \<Rightarrow> error + state" where
  "SharedPtr_ctor_ptr p s =
     (let (r, s1) = new_reference s
      in case reference_add (Some r) s1 of
           Inl e \<Rightarrow> Inl e
         | Inr s2 \<Rightarrow>
             Inr (s2\<lparr>shareds := shareds s2 @ [Some \<lparr>object = p, reference = Some r\<rparr>]\<rparr>))"

definition SharedPtr_copy_ctor :: "nat \<Rightarrow> state \<Rightarrow> error + state" where
  "SharedPtr_copy_ctor right s =
     (case lookup (shareds s) right of
        None \<Rightarrow> Inl DeadHandle
      | Some r \<Rightarrow>
          (case (if reference r \<noteq> None then reference_add (reference r) s else Inr s) of
             Inl e \<Rightarrow> Inl e
           | Inr s1 \<Rightarrow>
               Inr (s1\<lparr>shareds := shareds s1 @
                        [Some \<lparr>object = object r, reference = reference r\<rparr>]\<rparr>)))"

text \<open>\<^verbatim>\<open>SharedPtr(const WeakPtr<T> &right)\<close>, a public constructor.\<close>

definition SharedPtr_from_weak :: "nat \<Rightarrow> state \<Rightarrow> error + state" where
  "SharedPtr_from_weak right s =
     (case lookup (weaks s) right of
        None \<Rightarrow> Inl DeadHandle
      | Some r \<Rightarrow>
          (case (if reference_w r \<noteq> None then reference_add (reference_w r) s else Inr s) of
             Inl e \<Rightarrow> Inl e
           | Inr s1 \<Rightarrow>
               Inr (s1\<lparr>shareds := shareds s1 @
                        [Some \<lparr>object = pointer r, reference = reference_w r\<rparr>]\<rparr>)))"

definition SharedPtr_move_ctor :: "nat \<Rightarrow> state \<Rightarrow> error + state" where
  "SharedPtr_move_ctor right s =
     (case lookup (shareds s) right of
        None \<Rightarrow> Inl DeadHandle
      | Some r \<Rightarrow>
          Inr (s\<lparr>shareds := (shareds s @ [Some \<lparr>object = object r, reference = reference r\<rparr>])
                               [right := Some \<lparr>object = None, reference = None\<rparr>]\<rparr>))"

definition SharedPtr_dtor :: "nat \<Rightarrow> state \<Rightarrow> error + state" where
  "SharedPtr_dtor this s =
     (case lookup (shareds s) this of
        None \<Rightarrow> Inl DeadHandle
      | Some t \<Rightarrow>
          (case SharedPtr_deleter t s of
             Inl e \<Rightarrow> Inl e
           | Inr s1 \<Rightarrow> Inr (s1\<lparr>shareds := (shareds s1)[this := None]\<rparr>)))"

text \<open>
  \<^verbatim>\<open>operator=(const SharedPtr<T> &right)\<close>: the test \<^verbatim>\<open>this == &right\<close> compares
  the two variables; \<^verbatim>\<open>reference->add()\<close> is not guarded.
\<close>

definition SharedPtr_copy_assign :: "nat \<Rightarrow> nat \<Rightarrow> state \<Rightarrow> error + state" where
  "SharedPtr_copy_assign this right s =
     (case lookup (shareds s) this of
        None \<Rightarrow> Inl DeadHandle
      | Some t \<Rightarrow>
          (case lookup (shareds s) right of
             None \<Rightarrow> Inl DeadHandle
           | Some r \<Rightarrow>
               if this = right then Inr s
               else (case SharedPtr_deleter t s of
                       Inl e \<Rightarrow> Inl e
                     | Inr s1 \<Rightarrow>
                         (let s2 = s1\<lparr>shareds := (shareds s1)
                                     [this := Some \<lparr>object = object r, reference = reference r\<rparr>]\<rparr>
                          in reference_add (reference r) s2))))"

definition SharedPtr_move_assign :: "nat \<Rightarrow> nat \<Rightarrow> state \<Rightarrow> error + state" where
  "SharedPtr_move_assign this right s =
     (case lookup (shareds s) this of
        None \<Rightarrow> Inl DeadHandle
      | Some t \<Rightarrow>
          (case lookup (shareds s) right of
             None \<Rightarrow> Inl DeadHandle
           | Some r \<Rightarrow>
               if this = right then Inr s
               else (case SharedPtr_deleter t s of
                       Inl e \<Rightarrow> Inl e
                     | Inr s1 \<Rightarrow>
                         Inr (s1\<lparr>shareds := (shareds s1)
                                [this := Some \<lparr>object = object r, reference = reference r\<rparr>,
                                 right := Some \<lparr>object = None, reference = None\<rparr>]\<rparr>))))"

definition SharedPtr_get :: "nat \<Rightarrow> state \<Rightarrow> error + ptr" where
  "SharedPtr_get this s =
     (case lookup (shareds s) this of
        None \<Rightarrow> Inl DeadHandle
      | Some t \<Rightarrow> Inr (object t))"

definition SharedPtr_use_count :: "nat \<Rightarrow> state \<Rightarrow> error + size_t" where
  "SharedPtr_use_count this s =
     (case lookup (shareds s) this of
        None \<Rightarrow> Inl DeadHandle
      | Some t \<Rightarrow>
          (case reference t of
             None \<Rightarrow> Inr 0
           | Some r \<Rightarrow>
               (case lookup (blocks s) r of
                  None \<Rightarrow> Inl UseAfterFree
                | Some rc \<Rightarrow> Inr (get rc))))"

text \<open>\<^verbatim>\<open>reset(U *pointer)\<close>: a block is allocated only for a non-null pointer.\<close>

definition SharedPtr_reset_ptr :: "nat \<Rightarrow> ptr \<Rightarrow> state \<Rightarrow> error + state" where
  "SharedPtr_reset_ptr this p s =
     (case lookup (shareds s) this of
        None \<Rightarrow> Inl DeadHandle
      | Some t \<Rightarrow>
          (case SharedPtr_deleter t s of
             Inl e \<Rightarrow> Inl e
           | Inr s1 \<Rightarrow>
               if p \<noteq> None then
                 (let (r, s2) = new_reference s1
                  in case reference_add (Some r) s2 of
                       Inl e \<Rightarrow> Inl e
                     | Inr s3 \<Rightarrow>
                         Inr (s3\<lparr>shareds := (shareds s3)
                                [this := Some \<lparr>object = p, reference = Some r\<rparr>]\<rparr>))
               else Inr (s1\<lparr>shareds := (shareds s1)
                           [this := Some \<lparr>object = None, reference = None\<rparr>]\<rparr>)))"

definition SharedPtr_reset :: "nat \<Rightarrow> state \<Rightarrow> error + state" where
  "SharedPtr_reset this s =
     (case lookup (shareds s) this of
        None \<Rightarrow> Inl DeadHandle
      | Some t \<Rightarrow>
          (case SharedPtr_deleter t s of
             Inl e \<Rightarrow> Inl e
           | Inr s1 \<Rightarrow>
               Inr (s1\<lparr>shareds := (shareds s1)
                      [this := Some \<lparr>object = None, reference = None\<rparr>]\<rparr>)))"

definition SharedPtr_swap :: "nat \<Rightarrow> nat \<Rightarrow> state \<Rightarrow> error + state" where
  "SharedPtr_swap this other s =
     (case lookup (shareds s) this of
        None \<Rightarrow> Inl DeadHandle
      | Some t \<Rightarrow>
          (case lookup (shareds s) other of
             None \<Rightarrow> Inl DeadHandle
           | Some ot \<Rightarrow>
               Inr (s\<lparr>shareds := (shareds s)[other := Some t, this := Some ot]\<rparr>)))"

section \<open>WeakPtr\<close>

text \<open>
  \<^verbatim>\<open>deleter\<close>: the three conjuncts are evaluated left to right, so
  \<^verbatim>\<open>removeWeak\<close> runs only when the block pointer is not null and \<^verbatim>\<open>get()\<close> is 0.
\<close>

definition WeakPtr_deleter :: "WeakPtr \<Rightarrow> state \<Rightarrow> error + state" where
  "WeakPtr_deleter h s =
     (case reference_w h of
        None \<Rightarrow> Inr s
      | Some r \<Rightarrow>
          (case lookup (blocks s) r of
             None \<Rightarrow> Inl UseAfterFree
           | Some rc \<Rightarrow>
               if get rc \<noteq> 0 then Inr s
               else (let (n, rc') = removeWeak rc; s1 = store r rc' s
                     in if n \<noteq> 0 then Inr s1 else delete_reference r s1)))"

definition WeakPtr_ctor :: "state \<Rightarrow> error + state" where
  "WeakPtr_ctor s =
     Inr (s\<lparr>weaks := weaks s @ [Some \<lparr>pointer = None, reference_w = None\<rparr>]\<rparr>)"

definition WeakPtr_from_shared :: "nat \<Rightarrow> state \<Rightarrow> error + state" where
  "WeakPtr_from_shared from s =
     (case lookup (shareds s) from of
        None \<Rightarrow> Inl DeadHandle
      | Some f \<Rightarrow>
          (case reference_addWeak (reference f) s of
             Inl e \<Rightarrow> Inl e
           | Inr s1 \<Rightarrow>
               Inr (s1\<lparr>weaks := weaks s1 @
                        [Some \<lparr>pointer = object f, reference_w = reference f\<rparr>]\<rparr>)))"

definition WeakPtr_copy_ctor :: "nat \<Rightarrow> state \<Rightarrow> error + state" where
  "WeakPtr_copy_ctor right s =
     (case lookup (weaks s) right of
        None \<Rightarrow> Inl DeadHandle
      | Some r \<Rightarrow>
          (case reference_addWeak (reference_w r) s of
             Inl e \<Rightarrow> Inl e
           | Inr s1 \<Rightarrow>
               Inr (s1\<lparr>weaks := weaks s1 @
                        [Some \<lparr>pointer = pointer r, reference_w = reference_w r\<rparr>]\<rparr>)))"

definition WeakPtr_move_ctor :: "nat \<Rightarrow> state \<Rightarrow> error + state" where
  "WeakPtr_move_ctor right s =
     (case lookup (weaks s) right of
        None \<Rightarrow> Inl DeadHandle
      | Some r \<Rightarrow>
          Inr (s\<lparr>weaks := (weaks s @ [Some \<lparr>pointer = pointer r, reference_w = reference_w r\<rparr>])
                             [right := Some \<lparr>pointer = None, reference_w = None\<rparr>]\<rparr>))"

definition WeakPtr_dtor :: "nat \<Rightarrow> state \<Rightarrow> error + state" where
  "WeakPtr_dtor this s =
     (case lookup (weaks s) this of
        None \<Rightarrow> Inl DeadHandle
      | Some t \<Rightarrow>
          (case WeakPtr_deleter t s of
             Inl e \<Rightarrow> Inl e
           | Inr s1 \<Rightarrow> Inr (s1\<lparr>weaks := (weaks s1)[this := None]\<rparr>)))"

definition WeakPtr_copy_assign :: "nat \<Rightarrow> nat \<Rightarrow> state \<Rightarrow> error + state" where
  "WeakPtr_copy_assign this right s =
     (case lookup (weaks s) this of
        None \<Rightarrow> Inl DeadHandle
      | Some t \<Rightarrow>
          (case lookup (weaks s) right of
             None \<Rightarrow> Inl DeadHandle
           | Some r \<Rightarrow>
               if this = right then Inr s
               else (case WeakPtr_deleter t s of
                       Inl e \<Rightarrow> Inl e
                     | Inr s1 \<Rightarrow>
                         (let s2 = s1\<lparr>weaks := (weaks s1)
                                     [this := Some \<lparr>pointer = pointer r, reference_w = reference_w r\<rparr>]\<rparr>
                          in reference_addWeak (reference_w r) s2))))"

text \<open>\<^verbatim>\<open>operator=(const SharedPtr<T> &right)\<close> of WeakPtr.\<close>

definition WeakPtr_assign_shared :: "nat \<Rightarrow> nat \<Rightarrow> state \<Rightarrow> error + state" where
  "WeakPtr_assign_shared this right s =
     (case lookup (weaks s) this of
        None \<Rightarrow> Inl DeadHandle
      | Some t \<Rightarrow>
          (case lookup (shareds s) right of
             None \<Rightarrow> Inl DeadHandle
           | Some r \<Rightarrow>
               (case WeakPtr_deleter t s of
                  Inl e \<Rightarrow> Inl e
                | Inr s1 \<Rightarrow>
                    (let s2 = s1\<lparr>weaks := (weaks s1)
                                [this := Some \<lparr>pointer = object r, reference_w = reference r\<rparr>]\<rparr>
                     in reference_addWeak (reference r) s2))))"

definition WeakPtr_move_assign :: "nat \<Rightarrow> nat \<Rightarrow> state \<Rightarrow> error + state" where
  "WeakPtr_move_assign this right s =
     (case lookup (weaks s) this of
        None \<Rightarrow> Inl DeadHandle
      | Some t \<Rightarrow>
          (case lookup (weaks s) right of
             None \<Rightarrow> Inl DeadHandle
           | Some r \<Rightarrow>
               if this = right then Inr s
               else (case WeakPtr_deleter t s of
                       Inl e \<Rightarrow> Inl e
                     | Inr s1 \<Rightarrow>
                         Inr (s1\<lparr>weaks := (weaks s1)
                                [this := Some \<lparr>pointer = pointer r, reference_w = reference_w r\<rparr>,
                                 right := Some \<lparr>pointer = None, reference_w = None\<rparr>]\<rparr>))))"

definition WeakPtr_use_count :: "nat \<Rightarrow> state \<Rightarrow> error + size_t" where
  "WeakPtr_use_count this s =
     (case lookup (weaks s) this of
        None \<Rightarrow> Inl DeadHandle
      | Some t \<Rightarrow>
          (case reference_w t of
             None \<Rightarrow> Inr 0
           | Some r \<Rightarrow>
               (case lookup (blocks s) r of
                  None \<Rightarrow> Inl UseAfterFree
                | Some rc \<Rightarrow> Inr (get rc))))"

definition WeakPtr_expired :: "nat \<Rightarrow> state \<Rightarrow> error + bool" where
  "WeakPtr_expired this s =
     (case WeakPtr_use_count this s of
        Inl e \<Rightarrow> Inl e
      | Inr n \<Rightarrow> Inr (n = 0))"

text \<open>
  \<^verbatim>\<open>lock\<close>: the returned handle is the next SharedPtr variable, built by the default
  constructor or by \<^verbatim>\<open>SharedPtr(const WeakPtr<T> &)\<close>.
\<close>

definition WeakPtr_lock :: "nat \<Rightarrow> state \<Rightarrow> error + state" where
  "WeakPtr_lock this s =
     (case WeakPtr_expired this s of
        Inl e \<Rightarrow> Inl e
      | Inr b \<Rightarrow> if b then SharedPtr_ctor s else SharedPtr_from_weak this s)"

definition WeakPtr_reset :: "nat \<Rightarrow> state \<Rightarrow> error + state" where
  "WeakPtr_reset this s =
     (case lookup (weaks s) this of
        None \<Rightarrow> Inl DeadHandle
      | Some t \<Rightarrow>
          (case WeakPtr_deleter t s of
             Inl e \<Rightarrow> Inl e
           | Inr s1 \<Rightarrow>
               Inr (s1\<lparr>weaks := (weaks s1)
                      [this := Some \<lparr>pointer = None, reference_w = None\<rparr>]\<rparr>)))"

definition WeakPtr_swap :: "nat \<Rightarrow> nat \<Rightarrow> state \<Rightarrow> error + state" where
  "WeakPtr_swap this other s =
     (case lookup (weaks s) this of
        None \<Rightarrow> Inl DeadHandle
      | Some t \<Rightarrow>
          (case lookup (weaks s) other of
             None \<Rightarrow> Inl DeadHandle
           | Some ot \<Rightarrow>
               Inr (s\<lparr>weaks := (weaks s)[other := Some t, this := Some ot]\<rparr>)))"

section \<open>Programs\<close>

text \<open>
  A client program is a sequence of calls on handle variables. A constructor names its
  source; the variable it creates is the next one of its class. \<^verbatim>\<open>release\<close> hands
  its pointer to the caller, who is not modelled further.
\<close>

datatype op =
    U_ctor
  | U_ctor_ptr ptr
  | U_move_ctor nat
  | U_move_assign nat nat
  | U_dtor nat
  | U_release nat
  | U_reset nat ptr
  | U_swap nat nat
  | S_ctor
  | S_ctor_ptr ptr
  | S_copy_ctor nat
  | S_from_weak nat
  | S_move_ctor nat
  | S_dtor nat
  | S_copy_assign nat nat
  | S_move_assign nat nat
  | S_reset_ptr nat ptr
  | S_reset nat
  | S_swap nat nat
  | W_ctor
  | W_from_shared nat
  | W_copy_ctor nat
  | W_move_ctor nat
  | W_dtor nat
  | W_copy_assign nat nat
  | W_assign_shared nat nat
  | W_move_assign nat nat
  | W_lock nat
  | W_reset nat
  | W_swap nat nat

fun step :: "op \<Rightarrow> state \<Rightarrow> error + state" where
  "step U_ctor s = UniquePtr_ctor s"
| "step (U_ctor_ptr p) s = UniquePtr_ctor_ptr p s"
| "step (U_move_ctor j) s = UniquePtr_move_ctor j s"
| "step (U_move_assign i j) s = UniquePtr_move_assign i j s"
| "step (U_dtor i) s = UniquePtr_dtor i s"
| "step (U_release i) s =
     (case UniquePtr_release i s of Inl e \<Rightarrow> Inl e | Inr (p, s') \<Rightarrow> Inr s')"
| "step (U_reset i p) s = UniquePtr_reset i p s"
| "step (U_swap i j) s = UniquePtr_swap i j s"
| "step S_ctor s = SharedPtr_ctor s"
| "step (S_ctor_ptr p) s = SharedPtr_ctor_ptr p s"
| "step (S_copy_ctor j) s = SharedPtr_copy_ctor j s"
| "step (S_from_weak j) s = SharedPtr_from_weak j s"
| "step (S_move_ctor j) s = SharedPtr_move_ctor j s"
| "step (S_dtor i) s = SharedPtr_dtor i s"
| "step (S_copy_assign i j) s = SharedPtr_copy_assign i j s"
| "step (S_move_assign i j) s = SharedPtr_move_assign i j s"
| "step (S_reset_ptr i p) s = SharedPtr_reset_ptr i p s"
| "step (S_reset i) s = SharedPtr_reset i s"
| "step (S_swap i j) s = SharedPtr_swap i j s"
| "step W_ctor s = WeakPtr_ctor s"
| "step (W_from_shared j) s = WeakPtr_from_shared j s"
| "step (W_copy_ctor j) s = WeakPtr_copy_ctor j s"
| "step (W_move_ctor j) s = WeakPtr_move_ctor j s"
| "step (W_dtor i) s = WeakPtr_dtor i s"
| "step (W_copy_assign i j) s = WeakPtr_copy_assign i j s"
| "step (W_assign_shared i j) s = WeakPtr_assign_shared i j s"
| "step (W_move_assign i j) s = WeakPtr_move_assign i j s"
| "step (W_lock i) s = WeakPtr_lock i s"
| "step (W_reset i) s = WeakPtr_reset i s"
| "step (W_swap i j) s = WeakPtr_swap i j s"

fun run :: "op list \<Rightarrow> state \<Rightarrow> error + state" where
  "run [] s = Inr s"
| "run (x # xs) s = (case step x s of Inl e \<Rightarrow> Inl e | Inr s' \<Rightarrow> run xs s')"




text \<open>
  The specification of what a call does to the handle variables, written from the
  component design of the Shared Handle and not from the code: construction makes a new
  variable (empty, or sharing the pointer and block of its source; a move empties the
  source), destruction ends the lifetime of the variable, assignment adopts the pointer
  and block of the source (a move empties the source, self-assignment changes nothing),
  a reset without a new pointer empties the variable, a swap exchanges two variables.
\<close>

fun spec_handles :: "op \<Rightarrow> SharedPtr option list \<Rightarrow> SharedPtr option list" where
  "spec_handles S_ctor xs = xs @ [Some \<lparr>object = None, reference = None\<rparr>]"
| "spec_handles (S_copy_ctor j) xs = xs @ [lookup xs j]"
| "spec_handles (S_move_ctor j) xs =
     (xs @ [lookup xs j])[j := Some \<lparr>object = None, reference = None\<rparr>]"
| "spec_handles (S_dtor i) xs = xs[i := None]"
| "spec_handles (S_copy_assign i j) xs = xs[i := lookup xs j]"
| "spec_handles (S_move_assign i j) xs =
     (if i = j then xs
      else xs[i := lookup xs j, j := Some \<lparr>object = None, reference = None\<rparr>])"
| "spec_handles (S_reset_ptr i None) xs = xs[i := Some \<lparr>object = None, reference = None\<rparr>]"
| "spec_handles (S_reset i) xs = xs[i := Some \<lparr>object = None, reference = None\<rparr>]"
| "spec_handles (S_swap i j) xs = xs[j := lookup xs i, i := lookup xs j]"
| "spec_handles x xs = xs"

text \<open>The handle variables after a sequence of calls, by the specification.\<close>

fun handles :: "op list \<Rightarrow> SharedPtr option list \<Rightarrow> SharedPtr option list" where
  "handles [] h = h"
| "handles (x # xs) h = handles xs (spec_handles x h)"


section \<open>Counting the handles of a block\<close>

text \<open>\<open>refs r h\<close>: the variable \<open>h\<close> is live and its block pointer is \<open>r\<close>.\<close>

definition refs :: "addr \<Rightarrow> SharedPtr option \<Rightarrow> bool" where
  "refs r h = (case h of None \<Rightarrow> False | Some t \<Rightarrow> reference t = Some r)"

definition cnt :: "addr \<Rightarrow> SharedPtr option list \<Rightarrow> nat" where
  "cnt r xs = length (filter (refs r) xs)"

text \<open>The number of live SharedPtr variables whose block pointer is \<open>r\<close>.\<close>

definition sharing :: "addr \<Rightarrow> state \<Rightarrow> nat" where
  "sharing r s = cnt r (shareds s)"

text \<open>
  The invariant of a program whose SharedPtr variables all stem from one
  \<^verbatim>\<open>SharedPtr(X)\<close> with block \<open>r\<close>: a variable is dead, empty, or holds \<open>X\<close> and
  \<open>r\<close>; while \<open>k > 0\<close> variables hold the block, it is allocated with strong count
  \<open>k\<close> and nothing was deleted; once none does, the block is gone and \<open>X\<close> was
  deleted exactly once.
\<close>

definition ok :: "addr \<Rightarrow> addr \<Rightarrow> SharedPtr option \<Rightarrow> bool" where
  "ok X r h = (h = None \<or> h = Some \<lparr>object = None, reference = None\<rparr> \<or>
               h = Some \<lparr>object = Some X, reference = Some r\<rparr>)"

definition heap_at :: "addr \<Rightarrow> addr \<Rightarrow> nat \<Rightarrow> state \<Rightarrow> bool" where
  "heap_at X r k s =
     (if k = 0 then deleted s = [X] \<and> lookup (blocks s) r = None
      else deleted s = [] \<and> lookup (blocks s) r = Some \<lparr>count = of_nat k, weak = 0\<rparr>)"

definition shared_inv :: "addr \<Rightarrow> addr \<Rightarrow> state \<Rightarrow> bool" where
  "shared_inv X r s = (list_all (ok X r) (shareds s) \<and> heap_at X r (cnt r (shareds s)) s)"


section \<open>Unfolding the model\<close>

lemmas heap_defs = lookup_def delete_object_def delete_reference_def new_reference_def
  store_def add_def remove_def get_def addWeak_def removeWeak_def getWeak_def
  reference_add_def reference_addWeak_def

lemmas unique_defs = UniquePtr_ctor_def UniquePtr_ctor_ptr_def UniquePtr_move_ctor_def
  UniquePtr_move_assign_def UniquePtr_dtor_def UniquePtr_get_def UniquePtr_release_def
  UniquePtr_reset_def UniquePtr_swap_def

lemmas shared_defs = SharedPtr_deleter_def SharedPtr_ctor_def SharedPtr_ctor_ptr_def
  SharedPtr_copy_ctor_def SharedPtr_from_weak_def SharedPtr_move_ctor_def SharedPtr_dtor_def
  SharedPtr_copy_assign_def SharedPtr_move_assign_def SharedPtr_get_def SharedPtr_use_count_def
  SharedPtr_reset_ptr_def SharedPtr_reset_def SharedPtr_swap_def

lemmas weak_defs = WeakPtr_deleter_def WeakPtr_ctor_def WeakPtr_from_shared_def
  WeakPtr_copy_ctor_def WeakPtr_move_ctor_def WeakPtr_dtor_def WeakPtr_copy_assign_def
  WeakPtr_assign_shared_def WeakPtr_move_assign_def WeakPtr_use_count_def WeakPtr_expired_def
  WeakPtr_lock_def WeakPtr_reset_def WeakPtr_swap_def

lemmas model_defs = empty_state_def heap_defs unique_defs shared_defs weak_defs

section \<open>Exclusive handle\<close>

text \<open>
  C8. Move construction from a non-empty UniquePtr leaves the source empty
  (\<^verbatim>\<open>get()\<close> is null) and the new handle holding the original pointer; the destructor
  of the emptied source then ends the source's lifetime and changes nothing else: no
  object is deleted and the new handle still holds the pointer.
\<close>

theorem unique_move_ctor_empties_source:
  assumes "lookup (uniques s) src = Some \<lparr>object_u = Some p\<rparr>"
  shows "\<exists>s1. UniquePtr_move_ctor src s = Inr s1 \<and>
           UniquePtr_get src s1 = Inr None \<and>
           UniquePtr_get (length (uniques s)) s1 = Inr (Some p) \<and>
           deleted s1 = deleted s \<and>
           UniquePtr_dtor src s1 = Inr (s1\<lparr>uniques := (uniques s1)[src := None]\<rparr>) \<and>
           UniquePtr_get (length (uniques s)) (s1\<lparr>uniques := (uniques s1)[src := None]\<rparr>) =
             Inr (Some p)"
  using assms
  by (auto simp: unique_defs lookup_def nth_append split: if_splits)

theorem unique_move_ctor_empties_source_witness:
  "lookup (uniques \<lparr>blocks = [], deleted = [], uniques = [Some \<lparr>object_u = Some 7\<rparr>],
                     shareds = [], weaks = []\<rparr>) 0 = Some \<lparr>object_u = Some 7\<rparr> \<and>
   run [U_ctor_ptr (Some 7), U_move_ctor 0, U_dtor 0] empty_state =
     Inr \<lparr>blocks = [], deleted = [], uniques = [None, Some \<lparr>object_u = Some 7\<rparr>],
          shareds = [], weaks = []\<rparr>"
  using unique_move_ctor_empties_source
    [of "\<lparr>blocks = [], deleted = [], uniques = [Some \<lparr>object_u = Some 7\<rparr>],
          shareds = [], weaks = []\<rparr>" 0 7]
  by (simp add: model_defs)

section \<open>Shared handle built from a null pointer\<close>

text \<open>
  Whatever its block pointer, a handle whose object pointer is null is released without
  any effect on the heap.
\<close>

lemma SharedPtr_deleter_null_object:
  "object h = None \<Longrightarrow> SharedPtr_deleter h s = Inr s"
  by (simp add: SharedPtr_deleter_def)

text \<open>
  C10. \<^verbatim>\<open>SharedPtr(nullptr)\<close> allocates a block with strong count 1: the new handle
  reports \<^verbatim>\<open>use_count() == 1\<close> while \<^verbatim>\<open>get()\<close> is null. Its destructor and both
  resets skip the decrement, because \<^verbatim>\<open>deleter\<close> tests the object pointer first: the
  block stays allocated with count 1 and nothing is deleted.
\<close>

theorem shared_null_ctor_block_never_released:
  "\<exists>s1. SharedPtr_ctor_ptr None s = Inr s1 \<and>
     SharedPtr_get (length (shareds s)) s1 = Inr None \<and>
     SharedPtr_use_count (length (shareds s)) s1 = Inr 1 \<and>
     lookup (blocks s1) (length (blocks s)) = Some \<lparr>count = 1, weak = 0\<rparr> \<and>
     SharedPtr_dtor (length (shareds s)) s1 =
       Inr (s1\<lparr>shareds := (shareds s1)[length (shareds s) := None]\<rparr>) \<and>
     SharedPtr_reset (length (shareds s)) s1 =
       Inr (s1\<lparr>shareds := (shareds s1)
              [length (shareds s) := Some \<lparr>object = None, reference = None\<rparr>]\<rparr>) \<and>
     (\<exists>s2. SharedPtr_reset_ptr (length (shareds s)) q s1 = Inr s2 \<and>
         deleted s2 = deleted s1 \<and>
         lookup (blocks s2) (length (blocks s)) = Some \<lparr>count = 1, weak = 0\<rparr>)"
  by (auto simp: shared_defs heap_defs nth_append split: if_splits)

section \<open>Observer handle\<close>

text \<open>
  C9. The WeakPtr copy constructor, the WeakPtr constructor from a SharedPtr and the
  WeakPtr assignment from a SharedPtr call \<^verbatim>\<open>reference->addWeak()\<close> without a test.
  Each of the two constructors dereferences a null block pointer exactly when its source
  is empty. The assignment from an empty source always fails, and it fails on the null
  block pointer exactly when the source is empty and the release of the target went
  through. So each is safe only for a non-empty source. The SharedPtr copy constructor
  tests the pointer and copies an empty source into an empty handle.
\<close>

theorem weak_from_empty_source_null_deref:
  "(lookup (weaks s) j = Some w \<longrightarrow>
      (WeakPtr_copy_ctor j s = Inl NullDeref) = (reference_w w = None)) \<and>
   (lookup (shareds s) k = Some g \<longrightarrow>
      (WeakPtr_from_shared k s = Inl NullDeref) = (reference g = None)) \<and>
   (lookup (weaks s) i = Some t \<and> lookup (shareds s) k = Some g \<longrightarrow>
      (reference g = None \<longrightarrow> (\<exists>e. WeakPtr_assign_shared i k s = Inl e)) \<and>
      (WeakPtr_assign_shared i k s = Inl NullDeref) =
        (reference g = None \<and> (\<exists>s1. WeakPtr_deleter t s = Inr s1))) \<and>
   (lookup (shareds s) k = Some g \<and> reference g = None \<longrightarrow>
      SharedPtr_copy_ctor k s = Inr (s\<lparr>shareds := shareds s @ [Some g]\<rparr>))"
proof (intro conjI impI)
  show "(WeakPtr_copy_ctor j s = Inl NullDeref) = (reference_w w = None)"
    if "lookup (weaks s) j = Some w"
    using that
    by (auto simp: WeakPtr_copy_ctor_def reference_addWeak_def split: option.splits)
  show "(WeakPtr_from_shared k s = Inl NullDeref) = (reference g = None)"
    if "lookup (shareds s) k = Some g"
    using that
    by (auto simp: WeakPtr_from_shared_def reference_addWeak_def split: option.splits)
  have no_null: "WeakPtr_deleter t s \<noteq> Inl NullDeref"
    by (auto simp: WeakPtr_deleter_def removeWeak_def store_def delete_reference_def
        lookup_def Let_def split: option.splits if_splits)
  show "\<exists>e. WeakPtr_assign_shared i k s = Inl e"
    if "lookup (weaks s) i = Some t \<and> lookup (shareds s) k = Some g" and "reference g = None"
    using that
    by (auto simp: WeakPtr_assign_shared_def reference_addWeak_def split: sum.splits)
  show "(WeakPtr_assign_shared i k s = Inl NullDeref) =
      (reference g = None \<and> (\<exists>s1. WeakPtr_deleter t s = Inr s1))"
    if "lookup (weaks s) i = Some t \<and> lookup (shareds s) k = Some g"
    using that no_null
    by (cases "WeakPtr_deleter t s")
      (auto simp: WeakPtr_assign_shared_def reference_addWeak_def lookup_def
        split: option.splits if_splits)
  show "SharedPtr_copy_ctor k s = Inr (s\<lparr>shareds := shareds s @ [Some g]\<rparr>)"
    if "lookup (shareds s) k = Some g \<and> reference g = None"
    using that by (auto simp: SharedPtr_copy_ctor_def)
qed

theorem weak_from_empty_source_null_deref_witness:
  "run [W_ctor] empty_state =
     Inr \<lparr>blocks = [], deleted = [], uniques = [], shareds = [],
          weaks = [Some \<lparr>pointer = None, reference_w = None\<rparr>]\<rparr> \<and>
   run [W_ctor, W_copy_ctor 0] empty_state = Inl NullDeref \<and>
   run [S_ctor] empty_state =
     Inr \<lparr>blocks = [], deleted = [], uniques = [],
          shareds = [Some \<lparr>object = None, reference = None\<rparr>], weaks = []\<rparr> \<and>
   run [S_ctor, W_from_shared 0] empty_state = Inl NullDeref \<and>
   run [S_ctor, S_copy_ctor 0] empty_state =
     Inr \<lparr>blocks = [], deleted = [], uniques = [],
          shareds = [Some \<lparr>object = None, reference = None\<rparr>,
                     Some \<lparr>object = None, reference = None\<rparr>],
          weaks = []\<rparr> \<and>
   run [S_ctor, W_ctor] empty_state =
     Inr \<lparr>blocks = [], deleted = [], uniques = [],
          shareds = [Some \<lparr>object = None, reference = None\<rparr>],
          weaks = [Some \<lparr>pointer = None, reference_w = None\<rparr>]\<rparr> \<and>
   run [S_ctor, W_ctor, W_assign_shared 0 0] empty_state = Inl NullDeref"
  using weak_from_empty_source_null_deref
    [of "\<lparr>blocks = [], deleted = [], uniques = [], shareds = [],
          weaks = [Some \<lparr>pointer = None, reference_w = None\<rparr>]\<rparr>"
        0 "\<lparr>pointer = None, reference_w = None\<rparr>"]
    weak_from_empty_source_null_deref
    [of "\<lparr>blocks = [], deleted = [], uniques = [],
          shareds = [Some \<lparr>object = None, reference = None\<rparr>], weaks = []\<rparr>"
        _ _ 0 "\<lparr>object = None, reference = None\<rparr>"]
    weak_from_empty_source_null_deref
    [of "\<lparr>blocks = [], deleted = [], uniques = [],
          shareds = [Some \<lparr>object = None, reference = None\<rparr>],
          weaks = [Some \<lparr>pointer = None, reference_w = None\<rparr>]\<rparr>"
        0 "\<lparr>pointer = None, reference_w = None\<rparr>"
        0 "\<lparr>object = None, reference = None\<rparr>"
        0 "\<lparr>pointer = None, reference_w = None\<rparr>"]
  by (simp add: model_defs)

text \<open>
  C5. \<^verbatim>\<open>lock()\<close> on a live WeakPtr variable whose block, if it has one, is allocated
  (\<^verbatim>\<open>use_count()\<close> reads \<open>c\<close>): the handle is expired exactly when \<open>c = 0\<close>, which
  includes the empty handle; an expired handle yields a new empty SharedPtr and changes
  nothing else, without any failure; otherwise the new SharedPtr holds the observer's
  pointer and block and its \<^verbatim>\<open>use_count()\<close> is \<open>c + 1\<close> in \<^verbatim>\<open>size_t\<close> arithmetic,
  which is the number \<open>unat c + 1\<close> unless \<open>c\<close> is the largest \<^verbatim>\<open>size_t\<close>.
\<close>

theorem weak_lock_result:
  assumes "lookup (weaks s) w = Some h"
    and "WeakPtr_use_count w s = Inr c"
  shows "WeakPtr_expired w s = Inr (c = 0) \<and>
         (reference_w h = None \<longrightarrow> c = 0) \<and>
         (c = 0 \<longrightarrow> WeakPtr_lock w s =
            Inr (s\<lparr>shareds := shareds s @ [Some \<lparr>object = None, reference = None\<rparr>]\<rparr>)) \<and>
         (c \<noteq> 0 \<longrightarrow> (\<exists>s'. WeakPtr_lock w s = Inr s' \<and>
            deleted s' = deleted s \<and> weaks s' = weaks s \<and>
            lookup (shareds s') (length (shareds s)) =
              Some \<lparr>object = pointer h, reference = reference_w h\<rparr> \<and>
            SharedPtr_use_count (length (shareds s)) s' = Inr (c + 1) \<and>
            WeakPtr_use_count w s' = Inr (c + 1) \<and>
            (c \<noteq> - 1 \<longrightarrow> unat (c + 1) = unat c + 1)))"
proof (intro conjI impI)
  show "WeakPtr_expired w s = Inr (c = 0)"
    using assms by (simp add: WeakPtr_expired_def)
  show "c = 0" if "reference_w h = None"
    using assms that by (auto simp: WeakPtr_use_count_def)
  show "WeakPtr_lock w s =
      Inr (s\<lparr>shareds := shareds s @ [Some \<lparr>object = None, reference = None\<rparr>]\<rparr>)" if "c = 0"
    using assms that by (simp add: WeakPtr_lock_def WeakPtr_expired_def SharedPtr_ctor_def)
  assume nz: "c \<noteq> 0"
  from assms nz obtain r rc where r: "reference_w h = Some r"
    and rc: "lookup (blocks s) r = Some rc" and c: "c = count rc"
    by (auto simp: WeakPtr_use_count_def get_def split: option.splits)
  define s' where "s' = s\<lparr>blocks := (blocks s)[r := Some (rc\<lparr>count := count rc + 1\<rparr>)],
      shareds := shareds s @ [Some \<lparr>object = pointer h, reference = Some r\<rparr>]\<rparr>"
  have lock: "WeakPtr_lock w s = Inr s'"
    using assms nz r rc
    by (simp add: WeakPtr_lock_def WeakPtr_expired_def SharedPtr_from_weak_def
        reference_add_def store_def add_def s'_def)
  have rlen: "r < length (blocks s)"
    using rc by (simp add: lookup_def split: if_splits)
  have "deleted s' = deleted s" "weaks s' = weaks s"
    by (simp_all add: s'_def)
  moreover have "lookup (shareds s') (length (shareds s)) =
      Some \<lparr>object = pointer h, reference = reference_w h\<rparr>"
    by (simp add: s'_def lookup_def r)
  moreover have "SharedPtr_use_count (length (shareds s)) s' = Inr (c + 1)"
    using rlen by (simp add: SharedPtr_use_count_def s'_def lookup_def get_def c)
  moreover have "WeakPtr_use_count w s' = Inr (c + 1)"
    using rlen assms(1) r by (simp add: WeakPtr_use_count_def s'_def lookup_def get_def c)
  moreover have "c \<noteq> - 1 \<longrightarrow> unat (c + 1) = unat c + 1"
    using unatSuc [of c] max_word_wrap [of c] by (auto simp: add.commute)
  ultimately show "\<exists>s'. WeakPtr_lock w s = Inr s' \<and>
      deleted s' = deleted s \<and> weaks s' = weaks s \<and>
      lookup (shareds s') (length (shareds s)) =
        Some \<lparr>object = pointer h, reference = reference_w h\<rparr> \<and>
      SharedPtr_use_count (length (shareds s)) s' = Inr (c + 1) \<and>
      WeakPtr_use_count w s' = Inr (c + 1) \<and>
      (c \<noteq> - 1 \<longrightarrow> unat (c + 1) = unat c + 1)"
    using lock by blast
qed

theorem weak_lock_result_witness:
  "run [S_ctor_ptr (Some 7), W_from_shared 0] empty_state =
     Inr \<lparr>blocks = [Some \<lparr>count = 1, weak = 1\<rparr>], deleted = [], uniques = [],
          shareds = [Some \<lparr>object = Some 7, reference = Some 0\<rparr>],
          weaks = [Some \<lparr>pointer = Some 7, reference_w = Some 0\<rparr>]\<rparr> \<and>
   WeakPtr_use_count 0
     \<lparr>blocks = [Some \<lparr>count = 1, weak = 1\<rparr>], deleted = [], uniques = [],
      shareds = [Some \<lparr>object = Some 7, reference = Some 0\<rparr>],
      weaks = [Some \<lparr>pointer = Some 7, reference_w = Some 0\<rparr>]\<rparr> = Inr 1 \<and>
   run [S_ctor_ptr (Some 7), W_from_shared 0, W_lock 0] empty_state =
     Inr \<lparr>blocks = [Some \<lparr>count = 2, weak = 1\<rparr>], deleted = [], uniques = [],
          shareds = [Some \<lparr>object = Some 7, reference = Some 0\<rparr>,
                     Some \<lparr>object = Some 7, reference = Some 0\<rparr>],
          weaks = [Some \<lparr>pointer = Some 7, reference_w = Some 0\<rparr>]\<rparr> \<and>
   WeakPtr_use_count 0
     \<lparr>blocks = [Some \<lparr>count = 0, weak = 1\<rparr>], deleted = [7], uniques = [],
      shareds = [None],
      weaks = [Some \<lparr>pointer = Some 7, reference_w = Some 0\<rparr>]\<rparr> = Inr 0 \<and>
   run [S_ctor_ptr (Some 7), W_from_shared 0, S_dtor 0, W_lock 0] empty_state =
     Inr \<lparr>blocks = [Some \<lparr>count = 0, weak = 1\<rparr>], deleted = [7], uniques = [],
          shareds = [None, Some \<lparr>object = None, reference = None\<rparr>],
          weaks = [Some \<lparr>pointer = Some 7, reference_w = Some 0\<rparr>]\<rparr>"
  using weak_lock_result
    [of "\<lparr>blocks = [Some \<lparr>count = 1, weak = 1\<rparr>], deleted = [], uniques = [],
          shareds = [Some \<lparr>object = Some 7, reference = Some 0\<rparr>],
          weaks = [Some \<lparr>pointer = Some 7, reference_w = Some 0\<rparr>]\<rparr>"
        0 "\<lparr>pointer = Some 7, reference_w = Some 0\<rparr>" 1]
    weak_lock_result
    [of "\<lparr>blocks = [Some \<lparr>count = 0, weak = 1\<rparr>], deleted = [7], uniques = [],
          shareds = [None],
          weaks = [Some \<lparr>pointer = Some 7, reference_w = Some 0\<rparr>]\<rparr>"
        0 "\<lparr>pointer = Some 7, reference_w = Some 0\<rparr>" 0]
  by (simp add: model_defs)

section \<open>Release of a weak reference\<close>

text \<open>
  The weak count is decremented only behind the test \<^verbatim>\<open>!reference->get()\<close>: while the
  strong count is not 0, \<^verbatim>\<open>WeakPtr::deleter\<close> leaves the whole state as it is.
\<close>

lemma WeakPtr_deleter_strong_positive:
  assumes "reference_w h = Some r" and "lookup (blocks s) r = Some rc" and "count rc \<noteq> 0"
  shows "WeakPtr_deleter h s = Inr s"
  using assms by (simp add: WeakPtr_deleter_def get_def)

lemma WeakPtr_deleter_strong_zero:
  assumes "reference_w h = Some r" and "lookup (blocks s) r = Some rc" and "count rc = 0"
  shows "WeakPtr_deleter h s =
           (if weak rc = 1 then Inr (s\<lparr>blocks := (blocks s)[r := None]\<rparr>)
            else Inr (s\<lparr>blocks := (blocks s)[r := Some (rc\<lparr>weak := weak rc - 1\<rparr>)]\<rparr>))"
  using assms
  by (auto simp: WeakPtr_deleter_def get_def removeWeak_def store_def delete_reference_def
      lookup_def split: if_splits)

text \<open>
  C3, evaluated: a SharedPtr on object 7 and a WeakPtr made from it give the block the
  counts strong 1, weak 1. Resetting the WeakPtr (and likewise destroying it) leaves the
  weak count at 1: the release does not decrement it while the strong count is positive.
\<close>

theorem weak_release_skips_decrement:
  "run [S_ctor_ptr (Some 7), W_from_shared 0] empty_state =
     Inr \<lparr>blocks = [Some \<lparr>count = 1, weak = 1\<rparr>], deleted = [], uniques = [],
          shareds = [Some \<lparr>object = Some 7, reference = Some 0\<rparr>],
          weaks = [Some \<lparr>pointer = Some 7, reference_w = Some 0\<rparr>]\<rparr> \<and>
   run [S_ctor_ptr (Some 7), W_from_shared 0, W_reset 0] empty_state =
     Inr \<lparr>blocks = [Some \<lparr>count = 1, weak = 1\<rparr>], deleted = [], uniques = [],
          shareds = [Some \<lparr>object = Some 7, reference = Some 0\<rparr>],
          weaks = [Some \<lparr>pointer = None, reference_w = None\<rparr>]\<rparr> \<and>
   run [S_ctor_ptr (Some 7), W_from_shared 0, W_dtor 0] empty_state =
     Inr \<lparr>blocks = [Some \<lparr>count = 1, weak = 1\<rparr>], deleted = [], uniques = [],
          shareds = [Some \<lparr>object = Some 7, reference = Some 0\<rparr>],
          weaks = [None]\<rparr>"
  by (simp add: model_defs)

text \<open>
  C2, evaluated: when the WeakPtr is destroyed before the last SharedPtr, every handle
  is gone at the end, the object was deleted, and the block is still allocated with
  weak count 1: it is never deallocated.
\<close>

theorem block_leaks_when_weak_released_first:
  "run [S_ctor_ptr (Some 7), W_from_shared 0, W_dtor 0, S_dtor 0] empty_state =
     Inr \<lparr>blocks = [Some \<lparr>count = 0, weak = 1\<rparr>], deleted = [7], uniques = [],
          shareds = [None], weaks = [None]\<rparr>"
  by (simp add: model_defs)

text \<open>In the other order the block is deallocated by the release of the WeakPtr.\<close>

lemma block_freed_when_strong_released_first:
  "run [S_ctor_ptr (Some 7), W_from_shared 0, S_dtor 0] empty_state =
     Inr \<lparr>blocks = [Some \<lparr>count = 0, weak = 1\<rparr>], deleted = [7], uniques = [],
          shareds = [None],
          weaks = [Some \<lparr>pointer = Some 7, reference_w = Some 0\<rparr>]\<rparr> \<and>
   run [S_ctor_ptr (Some 7), W_from_shared 0, S_dtor 0, W_dtor 0] empty_state =
     Inr \<lparr>blocks = [None], deleted = [7], uniques = [], shareds = [None], weaks = [None]\<rparr>"
  by (simp add: model_defs)

section \<open>Self-assignment\<close>

text \<open>
  The assignment operators of SharedPtr and WeakPtr that take their own class compare
  \<^verbatim>\<open>this\<close> with the address of the argument and return at once.
\<close>

lemma SharedPtr_self_assign:
  assumes "lookup (shareds s) i = Some t"
  shows "SharedPtr_copy_assign i i s = Inr s" and "SharedPtr_move_assign i i s = Inr s"
  using assms by (simp_all add: SharedPtr_copy_assign_def SharedPtr_move_assign_def)

lemma WeakPtr_self_assign:
  assumes "lookup (weaks s) i = Some t"
  shows "WeakPtr_copy_assign i i s = Inr s" and "WeakPtr_move_assign i i s = Inr s"
  using assms by (simp_all add: WeakPtr_copy_assign_def WeakPtr_move_assign_def)

text \<open>
  The move assignment of UniquePtr has no such test: on a non-empty handle assigned to
  itself it deletes the object and leaves the handle empty.
\<close>

lemma UniquePtr_self_move_assign:
  assumes "lookup (uniques s) i = Some \<lparr>object_u = Some p\<rparr>" and "p \<notin> set (deleted s)"
  shows "UniquePtr_move_assign i i s =
           Inr (s\<lparr>deleted := deleted s @ [p],
                  uniques := (uniques s)[i := Some \<lparr>object_u = None\<rparr>]\<rparr>)"
  using assms by (simp add: UniquePtr_move_assign_def delete_object_def)

text \<open>
  C4, evaluated: a UniquePtr on object 7, move-assigned to itself, has deleted the
  object and is empty afterwards.
\<close>

theorem unique_self_move_assign_deletes:
  "run [U_ctor_ptr (Some 7)] empty_state =
     Inr \<lparr>blocks = [], deleted = [], uniques = [Some \<lparr>object_u = Some 7\<rparr>],
          shareds = [], weaks = []\<rparr> \<and>
   run [U_ctor_ptr (Some 7), U_move_assign 0 0] empty_state =
     Inr \<lparr>blocks = [], deleted = [7], uniques = [Some \<lparr>object_u = None\<rparr>],
          shareds = [], weaks = []\<rparr>"
  by (simp add: model_defs)

section \<open>Copy assignment of a shared handle\<close>

text \<open>
  Between two different variables with a non-empty source, copy assignment releases
  the target, then adopts the pointer and the block of the source and increments the
  strong count; the source variable is not written.
\<close>

lemma SharedPtr_copy_assign_nonempty:
  assumes "lookup (shareds s) i = Some t" and "lookup (shareds s) j = Some u" and "i \<noteq> j"
    and "SharedPtr_deleter t s = Inr s1" and "shareds s1 = shareds s"
    and "reference u = Some r" and "lookup (blocks s1) r = Some rc"
  shows "SharedPtr_copy_assign i j s =
           Inr (s1\<lparr>shareds := (shareds s)[i := Some u],
                   blocks := (blocks s1)[r := Some (rc\<lparr>count := count rc + 1\<rparr>)]\<rparr>)"
proof -
  from assms(6) have eta: "\<lparr>object = object u, reference = Some r\<rparr> = u"
    by (cases u) simp
  from assms show ?thesis
    by (simp add: SharedPtr_copy_assign_def reference_add_def store_def add_def eta)
qed

text \<open>
  C7, evaluated: with an empty source the unguarded \<^verbatim>\<open>reference->add()\<close> runs on a
  null block pointer. Here the target holds object 7 and the source is a default
  constructed SharedPtr.
\<close>

theorem copy_assign_empty_source_null_deref:
  "run [S_ctor_ptr (Some 7), S_ctor] empty_state =
     Inr \<lparr>blocks = [Some \<lparr>count = 1, weak = 0\<rparr>], deleted = [], uniques = [],
          shareds = [Some \<lparr>object = Some 7, reference = Some 0\<rparr>,
                     Some \<lparr>object = None, reference = None\<rparr>],
          weaks = []\<rparr> \<and>
   run [S_ctor_ptr (Some 7), S_ctor, S_copy_assign 0 1] empty_state = Inl NullDeref \<and>
   run [S_ctor_ptr (Some 7), S_ctor, S_copy_ctor 1] empty_state =
     Inr \<lparr>blocks = [Some \<lparr>count = 1, weak = 0\<rparr>], deleted = [], uniques = [],
          shareds = [Some \<lparr>object = Some 7, reference = Some 0\<rparr>,
                     Some \<lparr>object = None, reference = None\<rparr>,
                     Some \<lparr>object = None, reference = None\<rparr>],
          weaks = []\<rparr>"
  by (simp add: model_defs)

section \<open>One object shared by copies\<close>




lemma cnt_pos: "lookup xs i = Some t \<Longrightarrow> reference t = Some r \<Longrightarrow> 0 < cnt r xs"
proof -
  assume a: "lookup xs i = Some t" and b: "reference t = Some r"
  from a have "i < length xs" and "xs ! i = Some t"
    by (simp_all add: lookup_def split: if_splits)
  then have "Some t \<in> set xs" by (metis nth_mem)
  moreover have "refs r (Some t)" using b by (simp add: refs_def)
  ultimately have "filter (refs r) xs \<noteq> []" by (auto simp: filter_empty_conv)
  then show ?thesis by (simp add: cnt_def)
qed


lemma refs_simps [simp]:
  "refs r None = False"
  "refs r (Some \<lparr>object = a, reference = b\<rparr>) = (b = Some r)"
  by (simp_all add: refs_def)

lemma ok_simps [simp]:
  "ok X r None"
  "ok X r (Some \<lparr>object = None, reference = None\<rparr>)"
  "ok X r (Some \<lparr>object = Some X, reference = Some r\<rparr>)"
  by (simp_all add: ok_def)




lemma lookup_len: "lookup xs i = Some t \<Longrightarrow> i < length xs"
  by (simp add: lookup_def split: if_splits)

lemma heap_at_shareds [simp]: "heap_at X r k (s\<lparr>shareds := xs\<rparr>) = heap_at X r k s"
  by (simp add: heap_at_def)



lemma deleter_empty [simp]: "SharedPtr_deleter \<lparr>object = None, reference = None\<rparr> s = Inr s"
  by (simp add: SharedPtr_deleter_def)




lemma SharedPtr_eta [simp]: "\<lparr>object = object t, reference = reference t\<rparr> = t"
  by simp


















lemma handles_append: "handles (xs @ ys) h = handles ys (handles xs h)"
  by (induction xs arbitrary: h) simp_all





text \<open>
  Under the invariant \<^verbatim>\<open>use_count()\<close> of a non-empty handle is the number of live
  handles that hold its block.
\<close>

lemma shared_inv_use_count:
  assumes "shared_inv X r s" and "lookup (shareds s) i = Some t" and "reference t = Some r"
  shows "SharedPtr_use_count i s = Inr (of_nat (sharing r s))"
proof -
  from assms(2,3) have "0 < cnt r (shareds s)" by (rule cnt_pos)
  with assms show ?thesis
    by (simp add: shared_inv_def heap_at_def sharing_def SharedPtr_use_count_def get_def)
qed





section \<open>The strong count and the number of handles\<close>

text \<open>
  C6, evaluated: a SharedPtr built from a null pointer is copied and the copy is
  destroyed. One variable still holds block 0, and its \<^verbatim>\<open>use_count()\<close> is 2: the
  destructor of the copy did not decrement the count.
\<close>

theorem use_count_exceeds_handles_after_null_ctor:
  "run [S_ctor_ptr None, S_copy_ctor 0, S_dtor 1] empty_state =
     Inr \<lparr>blocks = [Some \<lparr>count = 2, weak = 0\<rparr>], deleted = [], uniques = [],
          shareds = [Some \<lparr>object = None, reference = Some 0\<rparr>, None], weaks = []\<rparr> \<and>
   SharedPtr_use_count 0
     \<lparr>blocks = [Some \<lparr>count = 2, weak = 0\<rparr>], deleted = [], uniques = [],
      shareds = [Some \<lparr>object = None, reference = Some 0\<rparr>, None], weaks = []\<rparr> = Inr 2 \<and>
   sharing 0
     \<lparr>blocks = [Some \<lparr>count = 2, weak = 0\<rparr>], deleted = [], uniques = [],
      shareds = [Some \<lparr>object = None, reference = Some 0\<rparr>, None], weaks = []\<rparr> = 1"
  by (simp add: model_defs sharing_def cnt_def refs_def)

end
